theory Spec2Isabelle
  imports Main
begin

section \<open>The document\<close>

text \<open>
  The script of \<^verbatim>\<open>src/report/script.js\<close> keeps no state of its own: it reads and
  writes attributes of the elements of the page. An element is a record of what the
  script can observe of it: the attributes \<^verbatim>\<open>id\<close>, \<^verbatim>\<open>class\<close> and \<^verbatim>\<open>style\<close> (an
  absent attribute is \<open>None\<close>, which is what \<^verbatim>\<open>getAttribute\<close> answers with
  \<^verbatim>\<open>null\<close>), the text content, and the length of the \<^verbatim>\<open>rows\<close> collection (a
  table has one; on any other element the property is undefined, \<open>None\<close>).
  The document is the list of its elements in document order, and an element is
  referred to by its position in that list, so that two elements with the same
  identifier stay two elements.
\<close>

record element =
  id_attr :: "string option"
  class_attr :: "string option"
  style_attr :: "string option"
  textContent :: string
  rows :: "nat option"

type_synonym document = "element list"

text \<open>
  A call of the script ends normally with the document it leaves behind, or throws a
  \<^verbatim>\<open>TypeError\<close> when it reads a property of \<^verbatim>\<open>null\<close> or \<^verbatim>\<open>undefined\<close>; the
  document at that moment is kept, since what was written before stays written.
  \<open>OutOfModel\<close> marks the inputs this development does not describe: a click target
  that is not an element of the document, and a row number above \<open>2 ^ 54\<close>, where the
  string of a double is no longer the decimal numeral of its value.
\<close>

datatype outcome =
    is_Ok: Ok (doc_of: document)
  | is_TypeError: TypeError (doc_at: document)
  | OutOfModel

subsection \<open>The DOM operations the script calls\<close>

fun index_of :: "('a \<Rightarrow> bool) \<Rightarrow> 'a list \<Rightarrow> nat option" where
  "index_of P [] = None"
| "index_of P (x # xs) = (if P x then Some 0 else map_option Suc (index_of P xs))"

text \<open>\<^verbatim>\<open>document.getElementById(s)\<close>: the first element, in document order, whose
  identifier is \<open>s\<close>; \<open>None\<close> is \<^verbatim>\<open>null\<close>.\<close>

definition getElementById :: "document \<Rightarrow> string \<Rightarrow> nat option" where
  "getElementById doc s = index_of (\<lambda>e. id_attr e = Some s) doc"

text \<open>Splitting a string at the characters that satisfy \<open>sep\<close>, as
  \<^verbatim>\<open>String.prototype.split\<close> does for a one-character separator: the pieces between
  the separators, empty pieces included, never an empty list.\<close>

fun split_at :: "(char \<Rightarrow> bool) \<Rightarrow> string \<Rightarrow> string list" where
  "split_at sep [] = [[]]"
| "split_at sep (c # cs) =
     (if sep c then [] # split_at sep cs
      else (case split_at sep cs of
              [] \<Rightarrow> [[c]]
            | p # ps \<Rightarrow> (c # p) # ps))"

definition is_ascii_whitespace :: "char \<Rightarrow> bool" where
  "is_ascii_whitespace c = (of_char c \<in> set [9, 10, 12, 13, 32 :: nat])"

text \<open>The class names of an element: its \<^verbatim>\<open>class\<close> attribute split at ASCII
  whitespace. \<^verbatim>\<open>document.getElementsByClassName(c)[0]\<close> is the first element that
  has \<open>c\<close> among them; \<open>None\<close> is \<^verbatim>\<open>undefined\<close>.\<close>

definition class_names :: "element \<Rightarrow> string list" where
  "class_names e =
     (case class_attr e of
        None \<Rightarrow> []
      | Some s \<Rightarrow> filter (\<lambda>w. w \<noteq> []) (split_at is_ascii_whitespace s))"

definition getElementsByClassName_0 :: "document \<Rightarrow> string \<Rightarrow> nat option" where
  "getElementsByClassName_0 doc c = index_of (\<lambda>e. c \<in> set (class_names e)) doc"

definition setAttribute_class :: "document \<Rightarrow> nat \<Rightarrow> string \<Rightarrow> document" where
  "setAttribute_class doc i v = doc[i := (doc ! i)\<lparr>class_attr := Some v\<rparr>]"

definition setAttribute_style :: "document \<Rightarrow> nat \<Rightarrow> string \<Rightarrow> document" where
  "setAttribute_style doc i v = doc[i := (doc ! i)\<lparr>style_attr := Some v\<rparr>]"

definition set_textContent :: "document \<Rightarrow> nat \<Rightarrow> string \<Rightarrow> document" where
  "set_textContent doc i v = doc[i := (doc ! i)\<lparr>textContent := v\<rparr>]"

subsection \<open>Numbers and their decimal strings\<close>

definition is_digit :: "char \<Rightarrow> bool" where
  "is_digit c = (48 \<le> (of_char c :: nat) \<and> (of_char c :: nat) \<le> 57)"

definition digits_value :: "string \<Rightarrow> nat" where
  "digits_value s = foldl (\<lambda>acc c. 10 * acc + (of_char c - 48)) 0 s"

definition MAX_SAFE_INTEGER :: nat where
  "MAX_SAFE_INTEGER = 2 ^ 53 - 1"

text \<open>
  A JavaScript number is an IEEE 754 double, and the result of an operation is the
  double nearest to the exact result, a tie going to the double whose significand is
  even. Every integer up to \<open>2 ^ 53\<close> is a double. From \<open>2 ^ 53\<close> to \<open>2 ^ 54\<close> the
  doubles are the even integers; an odd integer there lies half way between its two
  neighbours and rounds to the one that is a multiple of 4 (the even significand).
  \<open>to_double n\<close> is the double nearest to the integer \<open>n\<close>, for \<open>n\<close> up to
  \<open>2 ^ 54 + 1\<close> (above \<open>2 ^ 54\<close> the doubles are 4 apart, so this last one rounds
  down to \<open>2 ^ 54\<close>, which the third branch gives).
\<close>

definition to_double :: "nat \<Rightarrow> nat" where
  "to_double n =
     (if n \<le> 2 ^ 53 then n
      else if even n then n
      else if (n + 1) mod 4 = 0 then n + 1
      else n - 1)"

text \<open>\<^verbatim>\<open>Number(s)\<close> for a string of decimal digits: the double nearest to its value,
  and 0 for the empty string. Above \<open>2 ^ 54\<close>, and for any other string, the answer
  is \<open>None\<close> (not modelled).\<close>

definition Number :: "string \<Rightarrow> nat option" where
  "Number s =
     (if list_all is_digit s \<and> digits_value s \<le> 2 ^ 54
      then Some (to_double (digits_value s)) else None)"

text \<open>The string of a double that is a non-negative integer up to \<open>2 ^ 54\<close>, as string
  concatenation converts it: the decimal digits of its value, no leading zero. (The
  conversion gives the shortest numeral that reads back as the same double, and among
  those of that length the nearest; up to \<open>2 ^ 54\<close> the neighbouring doubles are at
  most 2 away, so no numeral ending in 0 other than the value's own reads back as
  it.) The row counts of a table are far
  below this bound.\<close>

fun string_of_nat :: "nat \<Rightarrow> string" where
  "string_of_nat n =
     (if n < 10 then [''0123456789'' ! n]
      else string_of_nat (n div 10) @ [''0123456789'' ! (n mod 10)])"

declare string_of_nat.simps [simp del]

definition row_id :: "nat \<Rightarrow> string" where
  "row_id n = ''result-table-row-'' @ string_of_nat n"

section \<open>The script\<close>

text \<open>\<^verbatim>\<open>/^result-table-row-\d*$/.test(id)\<close>. The argument is converted to a string
  first, so \<^verbatim>\<open>null\<close> is tested as the string \<^verbatim>\<open>"null"\<close>.\<close>

fun ToString :: "string option \<Rightarrow> string" where
  "ToString None = ''null''"
| "ToString (Some s) = s"

definition isTableId :: "string option \<Rightarrow> bool" where
  "isTableId ident =
     (let s = ToString ident in
      take 17 s = ''result-table-row-'' \<and> list_all is_digit (drop 17 s))"

definition hide_row :: "document \<Rightarrow> nat \<Rightarrow> outcome" where
  "hide_row doc row_even =
     (if length doc \<le> row_even then OutOfModel
      else
        let element = id_attr (doc ! row_even) in
        if isTableId element then
          (case element of
             None \<Rightarrow> TypeError doc
           | Some s \<Rightarrow>
               (case Number (last (split_at (\<lambda>c. c = CHR ''-'') s)) of
                  None \<Rightarrow> OutOfModel
                | Some row_number \<Rightarrow>
                    if row_number mod 2 = 0 then
                      (case getElementById doc (row_id (to_double (row_number + 1))) of
                         None \<Rightarrow> TypeError doc
                       | Some row_odd \<Rightarrow>
                           if class_attr (doc ! row_odd) \<noteq> Some ''row-hide'' then
                             Ok (setAttribute_style
                                   (setAttribute_class doc row_odd ''row-hide'')
                                   row_even ''Null'')
                           else
                             Ok (setAttribute_style
                                   (setAttribute_class doc row_odd ''Null'')
                                   row_even ''border-left: 5px solid green;''))
                    else Ok doc))
        else Ok doc)"

text \<open>
  The script is read as a classic script: its assignments to the undeclared names
  \<^verbatim>\<open>span_text\<close>, \<^verbatim>\<open>odd_rows\<close>, \<^verbatim>\<open>row_odd\<close> and \<^verbatim>\<open>row_even\<close> make global variables, which
  nothing else reads. The menu control is taken to hold text only, so that writing its
  \<^verbatim>\<open>textContent\<close> removes no element.

  The two \<^verbatim>\<open>for\<close> loops of \<^verbatim>\<open>button\<close> have the same text but for the two strings they
  write: the class \<open>cls\<close> given to the row \<open>i\<close> and the style \<open>sty\<close> given to the row
  \<open>i - 1\<close>. \<open>toggle_rows\<close> is one iteration of the body, \<open>for_rows\<close> the loop
  \<^verbatim>\<open>for (let i = odd_rows; i > 0; i = i - 2)\<close>.
\<close>

definition toggle_rows :: "string \<Rightarrow> string \<Rightarrow> document \<Rightarrow> int \<Rightarrow> outcome" where
  "toggle_rows cls sty doc i =
     (case getElementById doc (row_id (nat i)) of
        None \<Rightarrow> TypeError doc
      | Some row_odd \<Rightarrow>
          let doc1 = setAttribute_class doc row_odd cls in
          (case getElementById doc1 (row_id (nat (i - 1))) of
             None \<Rightarrow> TypeError doc1
           | Some row_even \<Rightarrow> Ok (setAttribute_style doc1 row_even sty)))"

function for_rows :: "string \<Rightarrow> string \<Rightarrow> document \<Rightarrow> int \<Rightarrow> outcome" where
  "for_rows cls sty doc i =
     (if i > 0 then
        (case toggle_rows cls sty doc i of
           Ok doc' \<Rightarrow> for_rows cls sty doc' (i - 2)
         | TypeError doc' \<Rightarrow> TypeError doc'
         | OutOfModel \<Rightarrow> OutOfModel)
      else Ok doc)"
  by pat_completeness auto
termination
  by (relation "measure (\<lambda>(cls, sty, doc, i). nat i)") auto

declare for_rows.simps [simp del]

definition button :: "document \<Rightarrow> nat \<Rightarrow> outcome" where
  "button doc target =
     (if length doc \<le> target then OutOfModel
      else
        let element = id_attr (doc ! target) in
        if element = Some ''main-menu'' then
          (case getElementById doc ''main-menu'' of
             None \<Rightarrow> TypeError doc
           | Some span_text \<Rightarrow>
               if textContent (doc ! span_text) = ''Expand'' then
                 (let doc1 = set_textContent doc span_text ''Collapse'' in
                  case getElementsByClassName_0 doc1 ''result-table'' of
                    None \<Rightarrow> TypeError doc1
                  | Some table \<Rightarrow>
                      (case rows (doc1 ! table) of
                         None \<Rightarrow> TypeError doc1
                       | Some n \<Rightarrow>
                           for_rows ''Null'' ''border-left: 5px solid green;''
                             doc1 (int n - 1)))
               else
                 (let doc1 = set_textContent doc span_text ''Expand'' in
                  case getElementsByClassName_0 doc1 ''result-table'' of
                    None \<Rightarrow> TypeError doc1
                  | Some table \<Rightarrow>
                      (case rows (doc1 ! table) of
                         None \<Rightarrow> TypeError doc1
                       | Some n \<Rightarrow>
                           for_rows ''row-hide'' ''Null'' doc1 (int n - 1))))
        else Ok doc)"

text \<open>The click listener: \<^verbatim>\<open>hide_row(target); button(target);\<close>. An exception of
  the first call leaves the listener, and the second call is not made.\<close>

definition click :: "document \<Rightarrow> nat \<Rightarrow> outcome" where
  "click doc target =
     (case hide_row doc target of
        Ok doc1 \<Rightarrow> button doc1 target
      | TypeError doc1 \<Rightarrow> TypeError doc1
      | OutOfModel \<Rightarrow> OutOfModel)"

subsection \<open>The indices the loop visits\<close>

text \<open>The values the loop variable of
  \<^verbatim>\<open>for (let i = odd_rows; i > 0; i = i - 2)\<close> takes, in order.\<close>

function loop_indices :: "int \<Rightarrow> int list" where
  "loop_indices i = (if i > 0 then i # loop_indices (i - 2) else [])"
  by pat_completeness auto
termination
  by (relation "measure nat") auto

declare loop_indices.simps [simp del]

text \<open>The loop body run on a given list of indices, stopping at the first
  exception.\<close>

fun run_rows :: "string \<Rightarrow> string \<Rightarrow> document \<Rightarrow> int list \<Rightarrow> outcome" where
  "run_rows cls sty doc [] = Ok doc"
| "run_rows cls sty doc (i # js) =
     (case toggle_rows cls sty doc i of
        Ok doc' \<Rightarrow> run_rows cls sty doc' js
      | TypeError doc' \<Rightarrow> TypeError doc'
      | OutOfModel \<Rightarrow> OutOfModel)"

subsection \<open>What a reader of the page sees\<close>

text \<open>\<^verbatim>\<open>document.getElementById(s).getAttribute("class")\<close> and the same for
  \<^verbatim>\<open>style\<close>: \<open>None\<close> when the attribute, or the element, is absent.\<close>

definition class_of :: "document \<Rightarrow> string \<Rightarrow> string option" where
  "class_of doc s =
     (case getElementById doc s of None \<Rightarrow> None | Some r \<Rightarrow> class_attr (doc ! r))"

definition style_of :: "document \<Rightarrow> string \<Rightarrow> string option" where
  "style_of doc s =
     (case getElementById doc s of None \<Rightarrow> None | Some r \<Rightarrow> style_attr (doc ! r))"

text \<open>The document in which the element \<open>i\<close> carries the identifier \<open>s\<close> instead
  of its own, everything else the same.\<close>

definition with_id :: "document \<Rightarrow> nat \<Rightarrow> string \<Rightarrow> document" where
  "with_id doc i s = doc[i := (doc ! i)\<lparr>id_attr := Some s\<rparr>]"

subsection \<open>A report page\<close>

text \<open>The page of the scenario: the menu control reading \<^verbatim>\<open>Expand\<close>, a table of four
  rows, the rows 0 to 3 with no class and no style, and a heading.\<close>

definition plain :: element where
  "plain = \<lparr>id_attr = None, class_attr = None, style_attr = None,
            textContent = [], rows = None\<rparr>"

definition report :: document where
  "report =
     [plain\<lparr>id_attr := Some ''main-menu'', textContent := ''Expand''\<rparr>,
      plain\<lparr>class_attr := Some ''result-table'', rows := Some 4\<rparr>,
      plain\<lparr>id_attr := Some ''result-table-row-0''\<rparr>,
      plain\<lparr>id_attr := Some ''result-table-row-1''\<rparr>,
      plain\<lparr>id_attr := Some ''result-table-row-2''\<rparr>,
      plain\<lparr>id_attr := Some ''result-table-row-3''\<rparr>,
      plain\<lparr>id_attr := Some ''report-title'', textContent := ''Results''\<rparr>]"

text \<open>A page whose table has an odd number of rows: five, with identifiers 0 to 4.\<close>

definition report_five :: document where
  "report_five =
     [plain\<lparr>id_attr := Some ''main-menu'', textContent := ''Expand''\<rparr>,
      plain\<lparr>class_attr := Some ''result-table'', rows := Some 5\<rparr>,
      plain\<lparr>id_attr := Some ''result-table-row-0''\<rparr>,
      plain\<lparr>id_attr := Some ''result-table-row-1''\<rparr>,
      plain\<lparr>id_attr := Some ''result-table-row-2''\<rparr>,
      plain\<lparr>id_attr := Some ''result-table-row-3''\<rparr>,
      plain\<lparr>id_attr := Some ''result-table-row-4''\<rparr>]"

text \<open>Three pages with row numbers from \<open>2 ^ 53 = 9007199254740992\<close> on, where
  not every integer is a double: a row \<open>2 ^ 53\<close> alone; an odd row \<open>2 ^ 53 + 1\<close>
  with the row \<open>2 ^ 53\<close>; and an even row \<open>2 ^ 53 + 2\<close> with its sibling
  \<open>2 ^ 53 + 3\<close>.\<close>

definition lone_row :: document where
  "lone_row = [plain\<lparr>id_attr := Some ''result-table-row-9007199254740992''\<rparr>]"

definition odd_row_above :: document where
  "odd_row_above =
     [plain\<lparr>id_attr := Some ''result-table-row-9007199254740993''\<rparr>,
      plain\<lparr>id_attr := Some ''result-table-row-9007199254740992''\<rparr>]"

definition even_row_above :: document where
  "even_row_above =
     [plain\<lparr>id_attr := Some ''result-table-row-9007199254740994''\<rparr>,
      plain\<lparr>id_attr := Some ''result-table-row-9007199254740995''\<rparr>]"

section \<open>Properties of the DOM operations and of the identifiers\<close>

lemma index_of_Some:
  "index_of P xs = Some i \<Longrightarrow> i < length xs \<and> P (xs ! i)"
  by (induction xs arbitrary: i) (auto split: if_splits)

lemma index_of_None: "index_of P xs = None \<longleftrightarrow> list_all (\<lambda>x. \<not> P x) xs"
  by (induction xs) auto

lemma index_of_map: "index_of P (map f xs) = index_of (\<lambda>x. P (f x)) xs"
  by (induction xs) auto

lemma getElementById_ids:
  "map id_attr doc' = map id_attr doc \<Longrightarrow> getElementById doc' s = getElementById doc s"
proof -
  assume "map id_attr doc' = map id_attr doc"
  then have "index_of (\<lambda>a. a = Some s) (map id_attr doc')
      = index_of (\<lambda>a. a = Some s) (map id_attr doc)"
    by simp
  then show ?thesis
    by (simp add: getElementById_def index_of_map)
qed

lemma getElementById_Some:
  "getElementById doc s = Some i \<Longrightarrow> i < length doc \<and> id_attr (doc ! i) = Some s"
  unfolding getElementById_def by (rule index_of_Some)

lemma map_update_same: "(map f xs)[i := f (xs ! i)] = map f xs"
  by (metis list_update_id map_update)

lemma ids_setAttribute_class [simp]:
  "map id_attr (setAttribute_class doc i v) = map id_attr doc"
  by (simp add: setAttribute_class_def map_update map_update_same)

lemma ids_setAttribute_style [simp]:
  "map id_attr (setAttribute_style doc i v) = map id_attr doc"
  by (simp add: setAttribute_style_def map_update map_update_same)

lemma ids_set_textContent [simp]:
  "map id_attr (set_textContent doc i v) = map id_attr doc"
  by (simp add: set_textContent_def map_update map_update_same)

lemma digit_chars:
  "d < 10 \<Longrightarrow> of_char (''0123456789'' ! d) = 48 + d"
proof -
  assume "d < 10"
  then have "d \<in> {0, 1, 2, 3, 4, 5, 6, 7, 8, 9}" by auto
  then show ?thesis by auto
qed

lemma is_digit_string_of_nat: "list_all is_digit (string_of_nat n)"
proof (induction n rule: string_of_nat.induct)
  case (1 n)
  have d: "is_digit (''0123456789'' ! (n mod 10))"
    by (simp only: is_digit_def digit_chars [of "n mod 10"]) simp
  show ?case
  proof (cases "n < 10")
    case True
    with d show ?thesis by (subst string_of_nat.simps) simp
  next
    case False
    with d 1 show ?thesis by (subst string_of_nat.simps) simp
  qed
qed

lemma digits_value_snoc:
  "digits_value (s @ [c]) = 10 * digits_value s + (of_char c - 48)"
  by (simp add: digits_value_def)

lemma digits_value_string_of_nat: "digits_value (string_of_nat n) = n"
proof (induction n rule: string_of_nat.induct)
  case (1 n)
  show ?case
  proof (cases "n < 10")
    case True
    then show ?thesis
      by (subst string_of_nat.simps) (simp add: digits_value_def digit_chars)
  next
    case False
    with 1 show ?thesis
      by (subst string_of_nat.simps) (simp add: digits_value_snoc digit_chars)
  qed
qed

lemma split_at_not_Nil: "split_at sep s \<noteq> []"
  by (induction s) (auto split: list.splits)

lemma split_at_no_sep: "list_all (\<lambda>c. \<not> sep c) s \<Longrightarrow> split_at sep s = [s]"
  by (induction s) auto

lemma split_at_append:
  "sep c \<Longrightarrow> split_at sep (p @ c # r) = split_at sep p @ split_at sep r"
proof (induction p)
  case Nil
  then show ?case by simp
next
  case (Cons a p)
  obtain x xs where "split_at sep p = x # xs"
    using split_at_not_Nil [of sep p] by (cases "split_at sep p") auto
  with Cons show ?case by simp
qed

lemma last_split_at:
  "sep c \<Longrightarrow> list_all (\<lambda>c. \<not> sep c) ds \<Longrightarrow> last (split_at sep (p @ c # ds)) = ds"
  by (simp add: split_at_append split_at_no_sep)

lemma digit_not_dash: "is_digit c \<Longrightarrow> c \<noteq> CHR ''-''"
  by (auto simp: is_digit_def)

lemma last_split_digits:
  "list_all is_digit ds \<Longrightarrow>
   last (split_at (\<lambda>c. c = CHR ''-'') (''result-table-row-'' @ ds)) = ds"
proof -
  assume "list_all is_digit ds"
  then have "list_all (\<lambda>c. \<not> c = CHR ''-'') ds"
    by (induction ds) (auto dest: digit_not_dash)
  then have "last (split_at (\<lambda>c. c = CHR ''-'') (''result-table-row'' @ CHR ''-'' # ds)) = ds"
    by (intro last_split_at) simp_all
  then show ?thesis by simp
qed


lemma isTableId_row_id: "isTableId (Some (row_id n))"
  by (simp add: isTableId_def row_id_def is_digit_string_of_nat)

lemma to_double_exact: "n \<le> 2 ^ 53 \<Longrightarrow> to_double n = n"
  by (simp add: to_double_def)

lemma Number_row_id_double:
  "n \<le> 2 ^ 54 \<Longrightarrow>
   Number (last (split_at (\<lambda>c. c = CHR ''-'') (row_id n))) = Some (to_double n)"
  unfolding row_id_def
  by (simp only: last_split_digits [OF is_digit_string_of_nat])
    (simp add: Number_def is_digit_string_of_nat digits_value_string_of_nat)

lemma Number_row_id:
  "n \<le> MAX_SAFE_INTEGER \<Longrightarrow>
   Number (last (split_at (\<lambda>c. c = CHR ''-'') (row_id n))) = Some n"
proof -
  assume "n \<le> MAX_SAFE_INTEGER"
  then have "n \<le> 2 ^ 53" and "n \<le> 2 ^ 54"
    by (simp_all add: MAX_SAFE_INTEGER_def)
  then show ?thesis
    by (simp add: Number_row_id_double to_double_exact)
qed

lemma successor_exact: "n \<le> MAX_SAFE_INTEGER \<Longrightarrow> to_double (Suc n) = Suc n"
  by (rule to_double_exact) (simp add: MAX_SAFE_INTEGER_def)

lemma row_id_inject: "row_id m = row_id n \<Longrightarrow> m = n"
proof -
  assume "row_id m = row_id n"
  then have "string_of_nat m = string_of_nat n" by (simp add: row_id_def)
  then have "digits_value (string_of_nat m) = digits_value (string_of_nat n)" by simp
  then show ?thesis by (simp add: digits_value_string_of_nat)
qed

lemma row_id_not_menu: "row_id n \<noteq> ''main-menu''"
  by (simp add: row_id_def)

lemma length_setAttribute_class [simp]: "length (setAttribute_class doc i v) = length doc"
  by (simp add: setAttribute_class_def)

lemma length_setAttribute_style [simp]: "length (setAttribute_style doc i v) = length doc"
  by (simp add: setAttribute_style_def)

lemma length_set_textContent [simp]: "length (set_textContent doc i v) = length doc"
  by (simp add: set_textContent_def)

lemma id_setAttribute_class [simp]:
  "id_attr (setAttribute_class doc i v ! j) = id_attr (doc ! j)"
  by (cases "i < length doc")
    (simp_all add: setAttribute_class_def nth_list_update list_update_beyond)

lemma id_setAttribute_style [simp]:
  "id_attr (setAttribute_style doc i v ! j) = id_attr (doc ! j)"
  by (cases "i < length doc")
    (simp_all add: setAttribute_style_def nth_list_update list_update_beyond)

lemma id_set_textContent [simp]:
  "id_attr (set_textContent doc i v ! j) = id_attr (doc ! j)"
  by (cases "i < length doc")
    (simp_all add: set_textContent_def nth_list_update list_update_beyond)

lemma class_setAttribute_class:
  "class_attr (setAttribute_class doc i v ! j) =
     (if j = i \<and> i < length doc then Some v else class_attr (doc ! j))"
  by (cases "i < length doc")
    (simp_all add: setAttribute_class_def nth_list_update list_update_beyond)

lemma class_setAttribute_style [simp]:
  "class_attr (setAttribute_style doc i v ! j) = class_attr (doc ! j)"
  by (cases "i < length doc")
    (simp_all add: setAttribute_style_def nth_list_update list_update_beyond)

lemma class_set_textContent [simp]:
  "class_attr (set_textContent doc i v ! j) = class_attr (doc ! j)"
  by (cases "i < length doc")
    (simp_all add: set_textContent_def nth_list_update list_update_beyond)

lemma style_setAttribute_style:
  "style_attr (setAttribute_style doc i v ! j) =
     (if j = i \<and> i < length doc then Some v else style_attr (doc ! j))"
  by (cases "i < length doc")
    (simp_all add: setAttribute_style_def nth_list_update list_update_beyond)

lemma style_setAttribute_class [simp]:
  "style_attr (setAttribute_class doc i v ! j) = style_attr (doc ! j)"
  by (cases "i < length doc")
    (simp_all add: setAttribute_class_def nth_list_update list_update_beyond)

lemma style_set_textContent [simp]:
  "style_attr (set_textContent doc i v ! j) = style_attr (doc ! j)"
  by (cases "i < length doc")
    (simp_all add: set_textContent_def nth_list_update list_update_beyond)

lemma text_setAttribute_class [simp]:
  "textContent (setAttribute_class doc i v ! j) = textContent (doc ! j)"
  by (cases "i < length doc")
    (simp_all add: setAttribute_class_def nth_list_update list_update_beyond)

lemma text_setAttribute_style [simp]:
  "textContent (setAttribute_style doc i v ! j) = textContent (doc ! j)"
  by (cases "i < length doc")
    (simp_all add: setAttribute_style_def nth_list_update list_update_beyond)

lemma text_set_textContent:
  "textContent (set_textContent doc i v ! j) =
     (if j = i \<and> i < length doc then v else textContent (doc ! j))"
  by (cases "i < length doc")
    (simp_all add: set_textContent_def nth_list_update list_update_beyond)

lemma rows_set_textContent [simp]:
  "rows (set_textContent doc i v ! j) = rows (doc ! j)"
  by (cases "i < length doc")
    (simp_all add: set_textContent_def nth_list_update list_update_beyond)

lemma classes_set_textContent [simp]:
  "map class_attr (set_textContent doc i v) = map class_attr doc"
  by (simp add: set_textContent_def map_update map_update_same)

lemma row_id_numerals:
  "row_id 0 = ''result-table-row-0''" "row_id 1 = ''result-table-row-1''"
  "row_id 2 = ''result-table-row-2''" "row_id 3 = ''result-table-row-3''"
  "row_id 4 = ''result-table-row-4''" "row_id (Suc 0) = ''result-table-row-1''"
  by (simp_all add: row_id_def string_of_nat.simps)

lemmas page_defs = report_def report_five_def lone_row_def odd_row_above_def
  even_row_above_def plain_def

section \<open>A click on a row\<close>

lemma button_other:
  "target < length doc \<Longrightarrow> id_attr (doc ! target) \<noteq> Some ''main-menu'' \<Longrightarrow>
   button doc target = Ok doc"
  by (simp add: button_def)

lemma hide_row_other:
  "target < length doc \<Longrightarrow> \<not> isTableId (id_attr (doc ! target)) \<Longrightarrow>
   hide_row doc target = Ok doc"
  by (simp add: hide_row_def)

lemma hide_row_row_id:
  assumes "target < length doc" and "id_attr (doc ! target) = Some (row_id N)"
    and "N \<le> MAX_SAFE_INTEGER"
  shows "hide_row doc target =
     (if even N then
        (case getElementById doc (row_id (N + 1)) of
           None \<Rightarrow> TypeError doc
         | Some row_odd \<Rightarrow>
             if class_attr (doc ! row_odd) \<noteq> Some ''row-hide'' then
               Ok (setAttribute_style (setAttribute_class doc row_odd ''row-hide'')
                     target ''Null'')
             else
               Ok (setAttribute_style (setAttribute_class doc row_odd ''Null'')
                     target ''border-left: 5px solid green;''))
      else Ok doc)"
  using assms
  by (simp add: hide_row_def isTableId_row_id Number_row_id successor_exact
      even_iff_mod_2_eq_zero)

lemma click_row:
  assumes "target < length doc" and "id_attr (doc ! target) = Some (row_id N)"
    and "N \<le> MAX_SAFE_INTEGER"
  shows "click doc target = hide_row doc target"
proof -
  have "button d target = Ok d"
    if "length d = length doc" and "id_attr (d ! target) = id_attr (doc ! target)" for d
    using that assms by (simp add: button_other row_id_not_menu)
  then show ?thesis
    using assms
    by (simp add: click_def hide_row_row_id split: option.splits)
qed

lemma sibling_distinct:
  assumes "id_attr (doc ! target) = Some (row_id N)"
    and "getElementById doc (row_id (N + 1)) = Some sibling"
  shows "sibling < length doc" and "sibling \<noteq> target"
proof -
  from assms(2) have s: "sibling < length doc" "id_attr (doc ! sibling) = Some (row_id (N + 1))"
    by (simp_all add: getElementById_Some)
  show "sibling < length doc" by (rule s(1))
  show "sibling \<noteq> target"
  proof
    assume "sibling = target"
    with s(2) assms(1) have "row_id (N + 1) = row_id N" by simp
    then show False by (auto dest: row_id_inject)
  qed
qed

lemma click_even_row:
  assumes "target < length doc"
    and "id_attr (doc ! target) = Some (row_id N)"
    and "even N"
    and "N \<le> MAX_SAFE_INTEGER"
    and "getElementById doc (row_id (N + 1)) = Some sibling"
  shows "click doc target =
     Ok (if class_attr (doc ! sibling) \<noteq> Some ''row-hide''
         then setAttribute_style (setAttribute_class doc sibling ''row-hide'') target ''Null''
         else setAttribute_style (setAttribute_class doc sibling ''Null'') target
                ''border-left: 5px solid green;'')"
  using assms by (simp add: click_row hide_row_row_id)

lemma getElementById_setAttribute [simp]:
  "getElementById (setAttribute_class doc i v) s = getElementById doc s"
  "getElementById (setAttribute_style doc i v) s = getElementById doc s"
  "getElementById (set_textContent doc i v) s = getElementById doc s"
  by (rule getElementById_ids, simp)+

lemma rows_setAttribute_class [simp]:
  "rows (setAttribute_class doc i v ! j) = rows (doc ! j)"
  by (cases "i < length doc")
    (simp_all add: setAttribute_class_def nth_list_update list_update_beyond)

lemma rows_setAttribute_style [simp]:
  "rows (setAttribute_style doc i v ! j) = rows (doc ! j)"
  by (cases "i < length doc")
    (simp_all add: setAttribute_style_def nth_list_update list_update_beyond)

lemma document_eqI:
  fixes a b :: document
  assumes "length a = length b"
    and "\<And>i. i < length a \<Longrightarrow> id_attr (a ! i) = id_attr (b ! i)"
    and "\<And>i. i < length a \<Longrightarrow> class_attr (a ! i) = class_attr (b ! i)"
    and "\<And>i. i < length a \<Longrightarrow> style_attr (a ! i) = style_attr (b ! i)"
    and "\<And>i. i < length a \<Longrightarrow> textContent (a ! i) = textContent (b ! i)"
    and "\<And>i. i < length a \<Longrightarrow> rows (a ! i) = rows (b ! i)"
  shows "a = b"
proof (rule nth_equalityI)
  show "length a = length b" by (rule assms(1))
next
  fix i assume "i < length a"
  then show "a ! i = b ! i"
    using assms(2-6) by (intro element.equality) simp_all
qed

lemma write_pair_twice:
  "setAttribute_style (setAttribute_class
       (setAttribute_style (setAttribute_class doc s a) t b) s c) t d
   = setAttribute_style (setAttribute_class doc s c) t d"
  by (rule document_eqI)
    (simp_all add: class_setAttribute_class style_setAttribute_style)


lemma click_even_row_twice:
  assumes "target < length doc"
    and "id_attr (doc ! target) = Some (row_id N)"
    and "even N"
    and "N \<le> MAX_SAFE_INTEGER"
    and "getElementById doc (row_id (N + 1)) = Some sibling"
    and "click doc target = Ok d1"
  shows "click d1 target =
     Ok (if class_attr (doc ! sibling) \<noteq> Some ''row-hide''
         then setAttribute_style (setAttribute_class doc sibling ''Null'') target
                ''border-left: 5px solid green;''
         else setAttribute_style (setAttribute_class doc sibling ''row-hide'') target ''Null'')"
proof -
  note sd = sibling_distinct [OF assms(2) assms(5)]
  have d1: "d1 = (if class_attr (doc ! sibling) \<noteq> Some ''row-hide''
         then setAttribute_style (setAttribute_class doc sibling ''row-hide'') target ''Null''
         else setAttribute_style (setAttribute_class doc sibling ''Null'') target
                ''border-left: 5px solid green;'')"
    using click_even_row [OF assms(1-5)] assms(6) by simp
  have "target < length d1" and "id_attr (d1 ! target) = Some (row_id N)"
    and "getElementById d1 (row_id (N + 1)) = Some sibling"
    using assms(1,2,5) by (simp_all add: d1)
  from click_even_row [OF this(1,2) assms(3,4) this(3)]
  show ?thesis
    using sd by (simp add: d1 class_setAttribute_class write_pair_twice)
qed


lemma index_of_update:
  "i < length xs \<Longrightarrow> P y = P (xs ! i) \<Longrightarrow> index_of P (xs[i := y]) = index_of P xs"
proof (induction xs arbitrary: i)
  case Nil
  then show ?case by simp
next
  case (Cons x xs)
  then show ?case by (cases i) simp_all
qed

lemma length_with_id [simp]: "length (with_id doc i s) = length doc"
  by (simp add: with_id_def)

lemma nth_with_id:
  "id_attr (with_id doc i s ! j) = (if j = i \<and> i < length doc then Some s else id_attr (doc ! j))"
  "class_attr (with_id doc i s ! j) = class_attr (doc ! j)"
  "style_attr (with_id doc i s ! j) = style_attr (doc ! j)"
  "textContent (with_id doc i s ! j) = textContent (doc ! j)"
  "rows (with_id doc i s ! j) = rows (doc ! j)"
  by (cases "i < length doc"; simp add: with_id_def nth_list_update list_update_beyond)+

lemma getElementById_with_id:
  assumes "i < length doc" and "id_attr (doc ! i) \<noteq> Some s" and "x \<noteq> s"
  shows "getElementById (with_id doc i x) s = getElementById doc s"
  unfolding getElementById_def with_id_def
  using assms by (intro index_of_update) simp_all

lemma with_id_write_pair:
  "setAttribute_style (setAttribute_class (with_id doc t x) s v) t sty
   = with_id (setAttribute_style (setAttribute_class doc s v) t sty) t x"
  by (rule document_eqI)
    (simp_all add: nth_with_id class_setAttribute_class style_setAttribute_style)

lemma hide_row_ids:
  "hide_row doc target = Ok d \<Longrightarrow> map id_attr d = map id_attr doc"
  by (auto simp: hide_row_def Let_def split: if_splits option.splits)

lemma click_not_menu:
  assumes "target < length doc" and "id_attr (doc ! target) \<noteq> Some ''main-menu''"
  shows "click doc target = hide_row doc target"
proof (cases "hide_row doc target")
  case (Ok d)
  then have "map id_attr d = map id_attr doc" by (rule hide_row_ids)
  then have "length d = length doc" and "id_attr (d ! target) = id_attr (doc ! target)"
    using assms(1) by (metis length_map, metis length_map nth_map)
  then have "button d target = Ok d"
    using assms by (simp add: button_other)
  with Ok show ?thesis by (simp add: click_def)
next
  case (TypeError d)
  then show ?thesis by (simp add: click_def)
next
  case OutOfModel
  then show ?thesis by (simp add: click_def)
qed

lemma hide_row_empty_suffix:
  assumes "target < length doc" and "id_attr (doc ! target) = Some ''result-table-row-''"
  shows "hide_row doc target =
     (case getElementById doc ''result-table-row-1'' of
        None \<Rightarrow> TypeError doc
      | Some row_odd \<Rightarrow>
          Ok (if class_attr (doc ! row_odd) \<noteq> Some ''row-hide''
              then setAttribute_style (setAttribute_class doc row_odd ''row-hide'')
                     target ''Null''
              else setAttribute_style (setAttribute_class doc row_odd ''Null'')
                     target ''border-left: 5px solid green;''))"
  using assms
  by (simp add: hide_row_def isTableId_def Number_def digits_value_def to_double_def
      row_id_numerals split: option.splits)

lemma big_row_ids:
  "row_id 9007199254740992 = ''result-table-row-9007199254740992''"
  "row_id 9007199254740993 = ''result-table-row-9007199254740993''"
  "row_id 9007199254740994 = ''result-table-row-9007199254740994''"
  "row_id 9007199254740995 = ''result-table-row-9007199254740995''"
  "row_id 9007199254740996 = ''result-table-row-9007199254740996''"
  by (simp_all add: row_id_def string_of_nat.simps)

lemma big_doubles:
  "to_double 9007199254740992 = 9007199254740992"
  "to_double 9007199254740993 = 9007199254740992"
  "to_double 9007199254740994 = 9007199254740994"
  "to_double 9007199254740995 = 9007199254740996"
  by (simp_all add: to_double_def)

lemma hide_row_row_id_double:
  assumes "target < length doc" and "id_attr (doc ! target) = Some (row_id N)"
    and "N \<le> 2 ^ 54"
  shows "hide_row doc target =
     (if even (to_double N) then
        (case getElementById doc (row_id (to_double (to_double N + 1))) of
           None \<Rightarrow> TypeError doc
         | Some row_odd \<Rightarrow>
             if class_attr (doc ! row_odd) \<noteq> Some ''row-hide'' then
               Ok (setAttribute_style (setAttribute_class doc row_odd ''row-hide'')
                     target ''Null'')
             else
               Ok (setAttribute_style (setAttribute_class doc row_odd ''Null'')
                     target ''border-left: 5px solid green;''))
      else Ok doc)"
  using assms
  by (simp add: hide_row_def isTableId_row_id Number_row_id_double even_iff_mod_2_eq_zero)





text \<open>
  \<^bold>\<open>C4\<close>, as the script has it. On a page where \<^verbatim>\<open>result-table-row-1\<close> is visible
  (its class is not \<^verbatim>\<open>row-hide\<close>), a first click on \<^verbatim>\<open>result-table-row-0\<close> gives
  row 1 the class \<^verbatim>\<open>row-hide\<close> and row 0 the style \<^verbatim>\<open>Null\<close>; a second click gives
  row 1 the class \<^verbatim>\<open>Null\<close> and row 0 the style \<^verbatim>\<open>border-left: 5px solid green;\<close>.
  The scenario of the specification has the two styles the other way round: on the
  page \<open>report\<close> the first click leaves row 0 with the style \<^verbatim>\<open>Null\<close>, not the
  border, and the second click leaves it with the border, not \<^verbatim>\<open>Null\<close>.
\<close>

theorem row_0_clicked_twice:
  assumes "target < length doc"
    and "id_attr (doc ! target) = Some ''result-table-row-0''"
    and "getElementById doc ''result-table-row-1'' = Some sibling"
    and "class_attr (doc ! sibling) \<noteq> Some ''row-hide''"
  shows "\<exists>d1 d2. click doc target = Ok d1
       \<and> class_attr (d1 ! sibling) = Some ''row-hide''
       \<and> style_attr (d1 ! target) = Some ''Null''
       \<and> click d1 target = Ok d2
       \<and> class_attr (d2 ! sibling) = Some ''Null''
       \<and> style_attr (d2 ! target) = Some ''border-left: 5px solid green;''"
proof -
  have i: "id_attr (doc ! target) = Some (row_id 0)"
    and g: "getElementById doc (row_id (0 + 1)) = Some sibling"
    using assms(2,3) by (simp_all add: row_id_numerals)
  have m: "(0::nat) \<le> MAX_SAFE_INTEGER" and e: "even (0::nat)"
    by simp_all
  note sd = sibling_distinct [OF i g]
  have c1: "click doc target =
      Ok (setAttribute_style (setAttribute_class doc sibling ''row-hide'') target ''Null'')"
    using click_even_row [OF assms(1) i e m g] assms(4) by simp
  have c2: "click (setAttribute_style (setAttribute_class doc sibling ''row-hide'') target ''Null'')
      target =
      Ok (setAttribute_style (setAttribute_class doc sibling ''Null'') target
            ''border-left: 5px solid green;'')"
    using click_even_row_twice [OF assms(1) i e m g c1] assms(4) by simp
  show ?thesis
    using assms(1) sd
    by (simp add: c1 c2 class_setAttribute_class style_setAttribute_style)
qed

theorem row_0_clicked_twice_witness:
  "click report 2 = Ok (doc_of (click report 2))
   \<and> class_attr (doc_of (click report 2) ! 3) = Some ''row-hide''
   \<and> style_attr (doc_of (click report 2) ! 2) = Some ''Null''
   \<and> class_attr (doc_of (click (doc_of (click report 2)) 2) ! 3) = Some ''Null''
   \<and> style_attr (doc_of (click (doc_of (click report 2)) 2) ! 2)
       = Some ''border-left: 5px solid green;''"
proof -
  have "2 < length report"
    and "id_attr (report ! 2) = Some ''result-table-row-0''"
    and "getElementById report ''result-table-row-1'' = Some 3"
    and "class_attr (report ! 3) \<noteq> Some ''row-hide''"
    by (simp_all add: getElementById_def page_defs)
  from row_0_clicked_twice [OF this] show ?thesis
    by auto
qed

theorem row_0_first_click_counterexample:
  "style_attr (doc_of (click report 2) ! 2) = Some ''Null''
   \<and> style_attr (doc_of (click report 2) ! 2) \<noteq> Some ''border-left: 5px solid green;''
   \<and> style_attr (doc_of (click (doc_of (click report 2)) 2) ! 2) \<noteq> Some ''Null''"
  by (simp add: click_def hide_row_def button_def isTableId_def is_digit_def Number_def
      digits_value_def to_double_def MAX_SAFE_INTEGER_def row_id_numerals getElementById_def
      setAttribute_class_def setAttribute_style_def page_defs)




text \<open>
  \<^bold>\<open>C10.\<close> The identifier \<^verbatim>\<open>result-table-row-\<close>, with no digit, passes the test
  \<open>isTableId\<close>; its last piece is the empty string, which \<open>Number\<close> reads as 0, an
  even number. A click on an element with that identifier therefore toggles the class
  of \<^verbatim>\<open>result-table-row-1\<close> and writes the style of the clicked element, or throws
  when there is no \<^verbatim>\<open>result-table-row-1\<close>; and the same click on the same page with
  the clicked element named \<^verbatim>\<open>result-table-row-0\<close> has the same outcome, up to that
  name.
\<close>

theorem empty_suffix_click_as_row_0:
  assumes "target < length doc"
    and "id_attr (doc ! target) = Some ''result-table-row-''"
  shows "isTableId (id_attr (doc ! target))
     \<and> Number (last (split_at (\<lambda>c. c = CHR ''-'') ''result-table-row-'')) = Some 0
     \<and> click doc target =
         (case getElementById doc ''result-table-row-1'' of
            None \<Rightarrow> TypeError doc
          | Some row_odd \<Rightarrow>
              Ok (if class_attr (doc ! row_odd) \<noteq> Some ''row-hide''
                  then setAttribute_style (setAttribute_class doc row_odd ''row-hide'')
                         target ''Null''
                  else setAttribute_style (setAttribute_class doc row_odd ''Null'')
                         target ''border-left: 5px solid green;''))
     \<and> click (with_id doc target ''result-table-row-0'') target =
         (case click doc target of
            Ok d \<Rightarrow> Ok (with_id d target ''result-table-row-0'')
          | TypeError d \<Rightarrow> TypeError (with_id d target ''result-table-row-0'')
          | OutOfModel \<Rightarrow> OutOfModel)"
proof -
  let ?doc0 = "with_id doc target ''result-table-row-0''"
  have a: "isTableId (id_attr (doc ! target))"
    using assms(2) by (simp add: isTableId_def)
  have b: "Number (last (split_at (\<lambda>c. c = CHR ''-'') ''result-table-row-'')) = Some 0"
    by (simp add: Number_def digits_value_def to_double_def)
  have c: "click doc target = hide_row doc target"
    using assms by (simp add: click_not_menu)
  note h = hide_row_empty_suffix [OF assms]
  have t0: "target < length ?doc0" and i0: "id_attr (?doc0 ! target) = Some (row_id 0)"
    using assms(1) by (simp_all add: nth_with_id row_id_numerals)
  have g: "getElementById ?doc0 ''result-table-row-1'' = getElementById doc ''result-table-row-1''"
    using assms by (simp add: getElementById_with_id)
  have h0: "click ?doc0 target =
     (case getElementById doc ''result-table-row-1'' of
        None \<Rightarrow> TypeError ?doc0
      | Some row_odd \<Rightarrow>
          Ok (if class_attr (doc ! row_odd) \<noteq> Some ''row-hide''
              then setAttribute_style (setAttribute_class ?doc0 row_odd ''row-hide'')
                     target ''Null''
              else setAttribute_style (setAttribute_class ?doc0 row_odd ''Null'')
                     target ''border-left: 5px solid green;''))"
    using click_row [OF t0 i0] hide_row_row_id [OF t0 i0] g
    by (simp add: row_id_numerals nth_with_id split: option.splits)
  have d: "click ?doc0 target =
         (case click doc target of
            Ok d \<Rightarrow> Ok (with_id d target ''result-table-row-0'')
          | TypeError d \<Rightarrow> TypeError (with_id d target ''result-table-row-0'')
          | OutOfModel \<Rightarrow> OutOfModel)"
    by (simp add: h0 c h with_id_write_pair split: option.splits)
  from a b c h d show ?thesis by simp
qed

theorem empty_suffix_click_as_row_0_witness:
  "click (with_id report 2 ''result-table-row-'') 2 =
     Ok (setAttribute_style
           (setAttribute_class (with_id report 2 ''result-table-row-'') 3 ''row-hide'')
           2 ''Null'')
   \<and> style_attr (doc_of (click (with_id report 2 ''result-table-row-'') 2) ! 2) = Some ''Null''
   \<and> class_attr (doc_of (click (with_id report 2 ''result-table-row-'') 2) ! 3)
       = Some ''row-hide''"
proof -
  have "2 < length (with_id report 2 ''result-table-row-'')"
    and "id_attr (with_id report 2 ''result-table-row-'' ! 2) = Some ''result-table-row-''"
    by (simp_all add: nth_with_id page_defs)
  from empty_suffix_click_as_row_0 [OF this] show ?thesis
    by (simp add: getElementById_def with_id_def setAttribute_class_def
        setAttribute_style_def page_defs)
qed

text \<open>
  \<^bold>\<open>C8\<close>, as the script has it. A click on the row \<^verbatim>\<open>result-table-row-N\<close> with \<open>N\<close>
  odd and at most \<open>MAX_SAFE_INTEGER\<close> changes nothing: the listener returns the
  document it was given, with every class, style and text as before.

  The bound on \<open>N\<close> is needed. On the page \<open>odd_row_above\<close> the clicked row is the odd
  \<open>2 ^ 53 + 1\<close>, which \<^verbatim>\<open>Number\<close> reads as the double \<open>2 ^ 53\<close>, an even number; the
  sibling look-up asks for \<open>2 ^ 53 + 1\<close> in doubles, that is for the row \<open>2 ^ 53\<close>,
  which is on the page: the click gives that row the class \<^verbatim>\<open>row-hide\<close> and the clicked
  row the style \<^verbatim>\<open>Null\<close>.
\<close>

theorem odd_row_click_no_mutation:
  assumes "target < length doc"
    and "id_attr (doc ! target) = Some (row_id N)"
    and "odd N"
    and "N \<le> MAX_SAFE_INTEGER"
  shows "click doc target = Ok doc"
  using assms by (simp add: click_row hide_row_row_id)

theorem odd_row_click_no_mutation_witness:
  "id_attr (report ! 5) = Some (row_id 3) \<and> click report 5 = Ok report"
  using odd_row_click_no_mutation [of 5 report 3]
  by (simp add: page_defs row_id_numerals MAX_SAFE_INTEGER_def)

theorem odd_row_above_safe_counterexample:
  "odd (9007199254740993::nat)
   \<and> id_attr (odd_row_above ! 0) = Some (row_id 9007199254740993)
   \<and> click odd_row_above 0 =
       Ok (setAttribute_style (setAttribute_class odd_row_above 1 ''row-hide'') 0 ''Null'')
   \<and> click odd_row_above 0 \<noteq> Ok odd_row_above
   \<and> class_attr (doc_of (click odd_row_above 0) ! 1) = Some ''row-hide''
   \<and> style_attr (doc_of (click odd_row_above 0) ! 0) = Some ''Null''"
proof -
  have t: "0 < length odd_row_above"
    and i: "id_attr (odd_row_above ! 0) = Some (row_id 9007199254740993)"
    and n: "(9007199254740993::nat) \<le> 2 ^ 54"
    by (simp_all add: big_row_ids page_defs)
  have g: "getElementById odd_row_above (row_id 9007199254740992) = Some 1"
    by (simp add: big_row_ids getElementById_def page_defs)
  have c: "class_attr (odd_row_above ! 1) \<noteq> Some ''row-hide''"
    by (simp add: page_defs)
  have h: "hide_row odd_row_above 0 =
      Ok (setAttribute_style (setAttribute_class odd_row_above 1 ''row-hide'') 0 ''Null'')"
    using hide_row_row_id_double [OF t i n] g c by (simp add: big_doubles)
  have m: "id_attr (odd_row_above ! 0) \<noteq> Some ''main-menu''"
    by (simp add: page_defs)
  have k: "click odd_row_above 0 =
      Ok (setAttribute_style (setAttribute_class odd_row_above 1 ''row-hide'') 0 ''Null'')"
    using click_not_menu [OF t m] h by simp
  have d: "setAttribute_style (setAttribute_class odd_row_above 1 ''row-hide'') 0 ''Null''
      \<noteq> odd_row_above"
    by (simp add: setAttribute_style_def setAttribute_class_def page_defs)
  have a: "class_attr (setAttribute_style (setAttribute_class odd_row_above 1 ''row-hide'') 0
      ''Null'' ! 1) = Some ''row-hide''"
    "style_attr (setAttribute_style (setAttribute_class odd_row_above 1 ''row-hide'') 0
      ''Null'' ! 0) = Some ''Null''"
    by (simp_all add: setAttribute_style_def setAttribute_class_def page_defs)
  from i k d a show ?thesis by simp
qed

section \<open>A click elsewhere\<close>

text \<open>
  \<^bold>\<open>C7.\<close> A click on an element whose identifier the test \<open>isTableId\<close> rejects and
  which is not \<^verbatim>\<open>main-menu\<close> (an element with no identifier included) changes
  nothing: the listener returns the document it was given.
\<close>

theorem other_click_no_mutation:
  assumes "target < length doc"
    and "\<not> isTableId (id_attr (doc ! target))"
    and "id_attr (doc ! target) \<noteq> Some ''main-menu''"
  shows "click doc target = Ok doc"
  using assms by (simp add: click_def hide_row_other button_other)

theorem other_click_no_mutation_witness:
  "6 < length report \<and> id_attr (report ! 6) = Some ''report-title''
   \<and> \<not> isTableId (id_attr (report ! 6)) \<and> click report 6 = Ok report"
  using other_click_no_mutation [of 6 report]
  by (simp add: page_defs isTableId_def)

section \<open>A click on the menu control\<close>

lemma for_rows_run: "for_rows cls sty doc i = run_rows cls sty doc (loop_indices i)"
proof (induction cls sty doc i rule: for_rows.induct)
  case (1 cls sty doc i)
  show ?case
  proof (cases "i > 0")
    case True
    then show ?thesis
      using 1
      by (subst for_rows.simps, subst loop_indices.simps) (simp split: outcome.splits)
  next
    case False
    then show ?thesis
      by (subst for_rows.simps, subst loop_indices.simps) simp
  qed
qed

lemma loop_indices_even: "loop_indices (int (2 * k) - 1) = rev (map int (filter odd [0..<2 * k]))"
proof (induction k)
  case 0
  show ?case by (subst loop_indices.simps) simp
next
  case (Suc k)
  have "loop_indices (int (2 * Suc k) - 1) = (int (2 * k) + 1) # loop_indices (int (2 * k) - 1)"
    by (subst loop_indices.simps) simp
  with Suc show ?case by simp
qed

lemma loop_indices_odd:
  "loop_indices (int (2 * k + 1) - 1) = rev (map int (filter even [1..<2 * k + 1]))"
proof (induction k)
  case 0
  show ?case by (subst loop_indices.simps) simp
next
  case (Suc k)
  have "loop_indices (int (2 * Suc k + 1) - 1)
      = (int (2 * k) + 2) # loop_indices (int (2 * k + 1) - 1)"
    by (subst loop_indices.simps) simp
  with Suc show ?case by simp
qed

lemma loop_indices_even_rows:
  assumes "even n"
  shows "loop_indices (int n - 1) = rev (map int (filter odd [0..<n]))"
proof -
  from assms obtain k where "n = 2 * k" by (auto elim: evenE)
  then show ?thesis by (simp only: loop_indices_even)
qed

lemma loop_indices_odd_rows:
  assumes "odd n"
  shows "loop_indices (int n - 1) = rev (map int (filter even [1..<n]))"
proof -
  from assms obtain k where "n = 2 * k + 1" by (auto elim: oddE)
  then show ?thesis by (simp only: loop_indices_odd)
qed

lemma toggle_rows_cases:
  "toggle_rows cls sty doc i =
     (case getElementById doc (row_id (nat i)) of
        None \<Rightarrow> TypeError doc
      | Some r \<Rightarrow>
          (case getElementById doc (row_id (nat (i - 1))) of
             None \<Rightarrow> TypeError (setAttribute_class doc r cls)
           | Some r' \<Rightarrow> Ok (setAttribute_style (setAttribute_class doc r cls) r' sty)))"
  by (simp add: toggle_rows_def split: option.splits)



lemma run_rows_Ok:
  assumes "\<forall>j\<in>set js. getElementById doc (row_id (nat j)) \<noteq> None
                    \<and> getElementById doc (row_id (nat (j - 1))) \<noteq> None"
  shows "\<exists>d. run_rows cls sty doc js = Ok d \<and> length d = length doc
      \<and> (\<forall>s. getElementById d s = getElementById doc s)
      \<and> (\<forall>x<length doc.
            textContent (d ! x) = textContent (doc ! x)
          \<and> class_attr (d ! x) =
              (if \<exists>j\<in>set js. getElementById doc (row_id (nat j)) = Some x
               then Some cls else class_attr (doc ! x))
          \<and> style_attr (d ! x) =
              (if \<exists>j\<in>set js. getElementById doc (row_id (nat (j - 1))) = Some x
               then Some sty else style_attr (doc ! x)))"
  using assms
proof (induction js arbitrary: doc)
  case Nil
  then show ?case by simp
next
  case (Cons j js)
  from Cons.prems obtain r r' where
    r: "getElementById doc (row_id (nat j)) = Some r"
    and r': "getElementById doc (row_id (nat (j - 1))) = Some r'"
    by auto
  define doc' where "doc' = setAttribute_style (setAttribute_class doc r cls) r' sty"
  have step: "toggle_rows cls sty doc j = Ok doc'"
    by (simp add: toggle_rows_cases r r' doc'_def)
  have ids: "\<And>s. getElementById doc' s = getElementById doc s"
    by (simp add: doc'_def)
  have len: "length doc' = length doc"
    by (simp add: doc'_def)
  have rl: "r < length doc" "r' < length doc"
    using r r' by (simp_all add: getElementById_Some)
  from Cons.prems have "\<forall>j\<in>set js. getElementById doc' (row_id (nat j)) \<noteq> None
                    \<and> getElementById doc' (row_id (nat (j - 1))) \<noteq> None"
    by (simp add: ids)
  from Cons.IH [OF this] obtain d where
    d: "run_rows cls sty doc' js = Ok d" "length d = length doc'"
      "\<forall>s. getElementById d s = getElementById doc' s"
    and at: "\<forall>x<length doc'.
            textContent (d ! x) = textContent (doc' ! x)
          \<and> class_attr (d ! x) =
              (if \<exists>j\<in>set js. getElementById doc' (row_id (nat j)) = Some x
               then Some cls else class_attr (doc' ! x))
          \<and> style_attr (d ! x) =
              (if \<exists>j\<in>set js. getElementById doc' (row_id (nat (j - 1))) = Some x
               then Some sty else style_attr (doc' ! x))"
    by blast
  have "run_rows cls sty doc (j # js) = Ok d"
    by (simp add: step d(1))
  moreover have "length d = length doc"
    by (simp add: d(2) len)
  moreover have "\<forall>s. getElementById d s = getElementById doc s"
    by (simp add: d(3) ids)
  moreover have "\<forall>x<length doc.
            textContent (d ! x) = textContent (doc ! x)
          \<and> class_attr (d ! x) =
              (if \<exists>k\<in>set (j # js). getElementById doc (row_id (nat k)) = Some x
               then Some cls else class_attr (doc ! x))
          \<and> style_attr (d ! x) =
              (if \<exists>k\<in>set (j # js). getElementById doc (row_id (nat (k - 1))) = Some x
               then Some sty else style_attr (doc ! x))"
  proof (intro allI impI)
    fix x assume "x < length doc"
    with at len have
      "textContent (d ! x) = textContent (doc' ! x)"
      "class_attr (d ! x) =
              (if \<exists>j\<in>set js. getElementById doc (row_id (nat j)) = Some x
               then Some cls else class_attr (doc' ! x))"
      "style_attr (d ! x) =
              (if \<exists>j\<in>set js. getElementById doc (row_id (nat (j - 1))) = Some x
               then Some sty else style_attr (doc' ! x))"
      by (simp_all add: ids)
    then show "textContent (d ! x) = textContent (doc ! x)
          \<and> class_attr (d ! x) =
              (if \<exists>k\<in>set (j # js). getElementById doc (row_id (nat k)) = Some x
               then Some cls else class_attr (doc ! x))
          \<and> style_attr (d ! x) =
              (if \<exists>k\<in>set (j # js). getElementById doc (row_id (nat (k - 1))) = Some x
               then Some sty else style_attr (doc ! x))"
      using r r' rl
      by (auto simp: doc'_def class_setAttribute_class style_setAttribute_style)
  qed
  ultimately show ?case by blast
qed


lemma getElementsByClassName_0_classes:
  "map class_attr doc' = map class_attr doc \<Longrightarrow>
   getElementsByClassName_0 doc' c = getElementsByClassName_0 doc c"
proof -
  let ?names = "\<lambda>a. case a of None \<Rightarrow> []
      | Some s \<Rightarrow> filter (\<lambda>w. w \<noteq> []) (split_at is_ascii_whitespace s)"
  assume "map class_attr doc' = map class_attr doc"
  then have "index_of (\<lambda>a. c \<in> set (?names a)) (map class_attr doc')
      = index_of (\<lambda>a. c \<in> set (?names a)) (map class_attr doc)"
    by simp
  then show ?thesis
    by (simp add: getElementsByClassName_0_def class_names_def index_of_map)
qed

lemma getElementsByClassName_0_set_textContent [simp]:
  "getElementsByClassName_0 (set_textContent doc i v) c = getElementsByClassName_0 doc c"
  by (rule getElementsByClassName_0_classes) simp

lemma getElementsByClassName_0_Some:
  "getElementsByClassName_0 doc c = Some i \<Longrightarrow> i < length doc"
  unfolding getElementsByClassName_0_def by (drule index_of_Some) simp

lemma not_isTableId_menu: "\<not> isTableId (Some ''main-menu'')"
  by (simp add: isTableId_def)

lemma click_menu:
  assumes "target < length doc" and "id_attr (doc ! target) = Some ''main-menu''"
  shows "click doc target = button doc target"
  using assms by (simp add: click_def hide_row_other not_isTableId_menu)

lemma button_menu:
  assumes "target < length doc"
    and "id_attr (doc ! target) = Some ''main-menu''"
    and "getElementById doc ''main-menu'' = Some menu"
  shows "button doc target =
     (if textContent (doc ! menu) = ''Expand'' then
        (case getElementsByClassName_0 doc ''result-table'' of
           None \<Rightarrow> TypeError (set_textContent doc menu ''Collapse'')
         | Some table \<Rightarrow>
             (case rows (doc ! table) of
                None \<Rightarrow> TypeError (set_textContent doc menu ''Collapse'')
              | Some n \<Rightarrow>
                  for_rows ''Null'' ''border-left: 5px solid green;''
                    (set_textContent doc menu ''Collapse'') (int n - 1)))
      else
        (case getElementsByClassName_0 doc ''result-table'' of
           None \<Rightarrow> TypeError (set_textContent doc menu ''Expand'')
         | Some table \<Rightarrow>
             (case rows (doc ! table) of
                None \<Rightarrow> TypeError (set_textContent doc menu ''Expand'')
              | Some n \<Rightarrow>
                  for_rows ''row-hide'' ''Null''
                    (set_textContent doc menu ''Expand'') (int n - 1))))"
  using assms by (simp add: button_def split: option.splits)






lemmas eval_defs = click_def hide_row_def button_def isTableId_def is_digit_def Number_def
  digits_value_def to_double_def MAX_SAFE_INTEGER_def row_id_numerals getElementById_def
  getElementsByClassName_0_def class_names_def is_ascii_whitespace_def
  setAttribute_class_def setAttribute_style_def set_textContent_def toggle_rows_def
  class_of_def style_of_def for_rows.simps page_defs

lemma run_odd_rows:
  assumes "even n" and "\<forall>i<n. getElementById doc (row_id i) \<noteq> None"
  shows "\<exists>d. run_rows cls sty doc (rev (map int (filter odd [0..<n]))) = Ok d
      \<and> length d = length doc
      \<and> (\<forall>x<length doc. textContent (d ! x) = textContent (doc ! x))
      \<and> (\<forall>i<n. odd i \<longrightarrow> class_of d (row_id i) = Some cls)
      \<and> (\<forall>i<n. even i \<longrightarrow> style_of d (row_id i) = Some sty)"
proof -
  let ?js = "rev (map int (filter odd [0..<n]))"
  have js: "set ?js = int ` {i. i < n \<and> odd i}"
    by auto
  have pre: "\<forall>j\<in>set ?js. getElementById doc (row_id (nat j)) \<noteq> None
                    \<and> getElementById doc (row_id (nat (j - 1))) \<noteq> None"
  proof
    fix j assume "j \<in> set ?js"
    then obtain i where i: "j = int i" "i < n" "odd i"
      unfolding js by auto
    then have "nat j = i" and "nat (j - 1) = i - 1" and "i - 1 < n"
      by auto
    with assms(2) i(2) show "getElementById doc (row_id (nat j)) \<noteq> None
                    \<and> getElementById doc (row_id (nat (j - 1))) \<noteq> None"
      by simp
  qed
  from run_rows_Ok [OF pre, of cls sty] obtain d where
    d: "run_rows cls sty doc ?js = Ok d" "length d = length doc"
      "\<forall>s. getElementById d s = getElementById doc s"
    and at: "\<forall>x<length doc.
            textContent (d ! x) = textContent (doc ! x)
          \<and> class_attr (d ! x) =
              (if \<exists>j\<in>set ?js. getElementById doc (row_id (nat j)) = Some x
               then Some cls else class_attr (doc ! x))
          \<and> style_attr (d ! x) =
              (if \<exists>j\<in>set ?js. getElementById doc (row_id (nat (j - 1))) = Some x
               then Some sty else style_attr (doc ! x))"
    by blast
  have c: "class_of d (row_id i) = Some cls" if "i < n" and "odd i" for i
  proof -
    from assms(2) that(1) obtain x where x: "getElementById doc (row_id i) = Some x"
      by auto
    then have xl: "x < length doc" by (simp add: getElementById_Some)
    have "int i \<in> set ?js" using that unfolding js by simp
    then have "\<exists>j\<in>set ?js. getElementById doc (row_id (nat j)) = Some x"
      using x by force
    with at xl have "class_attr (d ! x) = Some cls" by simp
    then show ?thesis by (simp add: class_of_def d(3) x)
  qed
  have s: "style_of d (row_id i) = Some sty" if "i < n" and "even i" for i
  proof -
    from assms(2) that(1) obtain x where x: "getElementById doc (row_id i) = Some x"
      by auto
    then have xl: "x < length doc" by (simp add: getElementById_Some)
    from that assms(1) have "i + 1 < n" and "odd (i + 1)"
      by (auto elim!: evenE)
    then have "int (i + 1) \<in> set ?js" unfolding js by blast
    moreover have "getElementById doc (row_id (nat (int (i + 1) - 1))) = Some x"
      using x by simp
    ultimately have "\<exists>j\<in>set ?js. getElementById doc (row_id (nat (j - 1))) = Some x"
      by blast
    with at xl have "style_attr (d ! x) = Some sty" by simp
    then show ?thesis by (simp add: style_of_def d(3) x)
  qed
  from d at c s show ?thesis by simp
qed

lemma click_menu_even_rows:
  assumes "target < length doc"
    and "id_attr (doc ! target) = Some ''main-menu''"
    and "getElementById doc ''main-menu'' = Some menu"
    and "getElementsByClassName_0 doc ''result-table'' = Some table"
    and "rows (doc ! table) = Some n"
    and "even n"
    and "\<forall>i<n. getElementById doc (row_id i) \<noteq> None"
    and "label = (if textContent (doc ! menu) = ''Expand'' then ''Collapse'' else ''Expand'')"
    and "cls = (if textContent (doc ! menu) = ''Expand'' then ''Null'' else ''row-hide'')"
    and "sty = (if textContent (doc ! menu) = ''Expand''
                then ''border-left: 5px solid green;'' else ''Null'')"
  shows "\<exists>d. click doc target = Ok d
      \<and> textContent (d ! menu) = label
      \<and> (\<forall>i<n. odd i \<longrightarrow> class_of d (row_id i) = Some cls)
      \<and> (\<forall>i<n. even i \<longrightarrow> style_of d (row_id i) = Some sty)"
proof -
  let ?doc1 = "set_textContent doc menu label"
  have ml: "menu < length doc"
    using assms(3) by (simp add: getElementById_Some)
  have c: "click doc target = run_rows cls sty ?doc1 (rev (map int (filter odd [0..<n])))"
    using assms(1-6)
    by (simp add: click_menu button_menu for_rows_run loop_indices_even_rows assms(8-10))
  have "\<forall>i<n. getElementById ?doc1 (row_id i) \<noteq> None"
    using assms(7) by simp
  from run_odd_rows [OF assms(6) this, of cls sty] obtain d where
    d: "run_rows cls sty ?doc1 (rev (map int (filter odd [0..<n]))) = Ok d"
      "\<forall>x<length ?doc1. textContent (d ! x) = textContent (?doc1 ! x)"
      "\<forall>i<n. odd i \<longrightarrow> class_of d (row_id i) = Some cls"
      "\<forall>i<n. even i \<longrightarrow> style_of d (row_id i) = Some sty"
    by blast
  from d(2) ml have "textContent (d ! menu) = label"
    by (simp add: text_set_textContent)
  with c d show ?thesis by simp
qed

text \<open>
  \<^bold>\<open>C6\<close>, as the script has it. On a click on \<^verbatim>\<open>main-menu\<close> the loop starts at the
  row count \<open>n\<close> of the first element of class \<^verbatim>\<open>result-table\<close>, minus one. When \<open>n\<close>
  is even, the loop variable takes exactly the odd indices below \<open>n\<close>, from the
  highest down, and the loop is its body run on these: the class is written to odd
  rows only. When \<open>n\<close> is odd this fails: for the five rows of \<open>report_five\<close> the
  indices are 4 and 2, and the click writes the class of the even rows 4 and 2 and
  leaves the odd rows 1 and 3 untouched.
\<close>

theorem global_toggle_visits_odd_rows:
  assumes "target < length doc"
    and "id_attr (doc ! target) = Some ''main-menu''"
    and "getElementById doc ''main-menu'' = Some menu"
    and "getElementsByClassName_0 doc ''result-table'' = Some table"
    and "rows (doc ! table) = Some n"
    and "even n"
  shows "click doc target =
       (if textContent (doc ! menu) = ''Expand''
        then for_rows ''Null'' ''border-left: 5px solid green;''
               (set_textContent doc menu ''Collapse'') (int n - 1)
        else for_rows ''row-hide'' ''Null''
               (set_textContent doc menu ''Expand'') (int n - 1))
     \<and> loop_indices (int n - 1) = rev (map int (filter odd [0..<n]))
     \<and> (\<forall>cls sty d. for_rows cls sty d (int n - 1)
           = run_rows cls sty d (rev (map int (filter odd [0..<n]))))"
  using assms
  by (simp add: click_menu button_menu for_rows_run loop_indices_even_rows)

theorem global_toggle_visits_odd_rows_witness:
  "loop_indices (int 4 - 1) = [3, 1]
   \<and> click report 0 =
       for_rows ''Null'' ''border-left: 5px solid green;''
         (set_textContent report 0 ''Collapse'') (int 4 - 1)"
proof -
  have "0 < length report"
    and "id_attr (report ! 0) = Some ''main-menu''"
    and "getElementById report ''main-menu'' = Some 0"
    and "getElementsByClassName_0 report ''result-table'' = Some 1"
    and "rows (report ! 1) = Some 4"
    and "even (4::nat)"
    by (simp_all add: getElementById_def getElementsByClassName_0_def class_names_def
        is_ascii_whitespace_def page_defs)
  from global_toggle_visits_odd_rows [OF this] show ?thesis
    by (simp add: page_defs upt_rec)
qed

theorem global_toggle_odd_row_count_counterexample:
  "getElementsByClassName_0 report_five ''result-table'' = Some 1
   \<and> rows (report_five ! 1) = Some 5
   \<and> loop_indices (int 5 - 1) = [4, 2]
   \<and> is_Ok (click report_five 0)
   \<and> class_of (doc_of (click report_five 0)) ''result-table-row-4'' = Some ''Null''
   \<and> class_of (doc_of (click report_five 0)) ''result-table-row-2'' = Some ''Null''
   \<and> class_of (doc_of (click report_five 0)) ''result-table-row-1'' = None
   \<and> class_of (doc_of (click report_five 0)) ''result-table-row-3'' = None"
  by (simp add: eval_defs loop_indices.simps)

text \<open>
  \<^bold>\<open>C1\<close>, as the script has it. A click on \<^verbatim>\<open>main-menu\<close> while its text is
  \<^verbatim>\<open>Expand\<close>, on a page whose table has an even number \<open>n\<close> of rows, all of them
  present as \<^verbatim>\<open>result-table-row-0\<close> to \<^verbatim>\<open>result-table-row-(n-1)\<close>: the text becomes
  \<^verbatim>\<open>Collapse\<close>, every odd row gets the class \<^verbatim>\<open>Null\<close> and every even row the style
  \<^verbatim>\<open>border-left: 5px solid green;\<close>. The odd rows are not given the class
  \<^verbatim>\<open>row-hide\<close>: on the page \<open>report\<close> the rows 1 and 3 end with the class \<^verbatim>\<open>Null\<close>.
\<close>

theorem menu_click_on_Expand:
  assumes "target < length doc"
    and "id_attr (doc ! target) = Some ''main-menu''"
    and "getElementById doc ''main-menu'' = Some menu"
    and "textContent (doc ! menu) = ''Expand''"
    and "getElementsByClassName_0 doc ''result-table'' = Some table"
    and "rows (doc ! table) = Some n"
    and "even n"
    and "\<forall>i<n. getElementById doc (row_id i) \<noteq> None"
  shows "\<exists>d. click doc target = Ok d
      \<and> textContent (d ! menu) = ''Collapse''
      \<and> (\<forall>i<n. odd i \<longrightarrow> class_of d (row_id i) = Some ''Null'')
      \<and> (\<forall>i<n. even i \<longrightarrow> style_of d (row_id i) = Some ''border-left: 5px solid green;'')"
  using click_menu_even_rows [OF assms(1-3) assms(5-8) refl refl refl] assms(4)
  by simp

lemma report_rows: "\<forall>i<4. getElementById report (row_id i) \<noteq> None"
proof (intro allI impI)
  fix i :: nat assume "i < 4"
  then have "i = 0 \<or> i = 1 \<or> i = 2 \<or> i = 3" by auto
  then show "getElementById report (row_id i) \<noteq> None"
    by (auto simp: row_id_numerals getElementById_def page_defs)
qed

theorem menu_click_on_Expand_witness:
  "textContent (report ! 0) = ''Expand''
   \<and> is_Ok (click report 0)
   \<and> textContent (doc_of (click report 0) ! 0) = ''Collapse''
   \<and> class_of (doc_of (click report 0)) (row_id 1) = Some ''Null''
   \<and> class_of (doc_of (click report 0)) (row_id 3) = Some ''Null''
   \<and> style_of (doc_of (click report 0)) (row_id 0) = Some ''border-left: 5px solid green;''
   \<and> style_of (doc_of (click report 0)) (row_id 2) = Some ''border-left: 5px solid green;''"
proof -
  have "0 < length report"
    and "id_attr (report ! 0) = Some ''main-menu''"
    and "getElementById report ''main-menu'' = Some 0"
    and "textContent (report ! 0) = ''Expand''"
    and "getElementsByClassName_0 report ''result-table'' = Some 1"
    and "rows (report ! 1) = Some 4"
    and "even (4::nat)"
    by (simp_all add: getElementById_def getElementsByClassName_0_def class_names_def
        is_ascii_whitespace_def page_defs)
  from menu_click_on_Expand [OF this report_rows] obtain d where
    "click report 0 = Ok d" "textContent (d ! 0) = ''Collapse''"
    "\<forall>i<4. odd i \<longrightarrow> class_of d (row_id i) = Some ''Null''"
    "\<forall>i<4. even i \<longrightarrow> style_of d (row_id i) = Some ''border-left: 5px solid green;''"
    by blast
  moreover have "textContent (report ! 0) = ''Expand''"
    by (simp add: page_defs)
  ultimately show ?thesis by simp
qed

theorem menu_click_on_Expand_counterexample:
  "textContent (report ! 0) = ''Expand''
   \<and> is_Ok (click report 0)
   \<and> class_of (doc_of (click report 0)) ''result-table-row-1'' = Some ''Null''
   \<and> class_of (doc_of (click report 0)) ''result-table-row-1'' \<noteq> Some ''row-hide''
   \<and> class_of (doc_of (click report 0)) ''result-table-row-3'' \<noteq> Some ''row-hide''"
  by (simp add: eval_defs)

text \<open>
  \<^bold>\<open>C2\<close>, as the script has it. A click on \<^verbatim>\<open>main-menu\<close> while its text is not
  \<^verbatim>\<open>Expand\<close>, on a page whose table has an even number \<open>n\<close> of rows, all of them
  present: the text becomes \<^verbatim>\<open>Expand\<close>, every odd row gets the class \<^verbatim>\<open>row-hide\<close>
  and every even row the style \<^verbatim>\<open>Null\<close>. The odd rows are hidden, not shown: on the
  page reached from \<open>report\<close> by a first click on the menu, a second click leaves the
  rows 1 and 3 with the class \<^verbatim>\<open>row-hide\<close>.
\<close>

theorem menu_click_on_Collapse:
  assumes "target < length doc"
    and "id_attr (doc ! target) = Some ''main-menu''"
    and "getElementById doc ''main-menu'' = Some menu"
    and "textContent (doc ! menu) \<noteq> ''Expand''"
    and "getElementsByClassName_0 doc ''result-table'' = Some table"
    and "rows (doc ! table) = Some n"
    and "even n"
    and "\<forall>i<n. getElementById doc (row_id i) \<noteq> None"
  shows "\<exists>d. click doc target = Ok d
      \<and> textContent (d ! menu) = ''Expand''
      \<and> (\<forall>i<n. odd i \<longrightarrow> class_of d (row_id i) = Some ''row-hide'')
      \<and> (\<forall>i<n. even i \<longrightarrow> style_of d (row_id i) = Some ''Null'')"
  using click_menu_even_rows [OF assms(1-3) assms(5-8) refl refl refl] assms(4)
  by simp

theorem menu_click_on_Collapse_witness:
  "textContent (set_textContent report 0 ''Collapse'' ! 0) \<noteq> ''Expand''
   \<and> is_Ok (click (set_textContent report 0 ''Collapse'') 0)
   \<and> textContent (doc_of (click (set_textContent report 0 ''Collapse'') 0) ! 0) = ''Expand''
   \<and> class_of (doc_of (click (set_textContent report 0 ''Collapse'') 0)) (row_id 1)
       = Some ''row-hide''
   \<and> class_of (doc_of (click (set_textContent report 0 ''Collapse'') 0)) (row_id 3)
       = Some ''row-hide''
   \<and> style_of (doc_of (click (set_textContent report 0 ''Collapse'') 0)) (row_id 0)
       = Some ''Null''
   \<and> style_of (doc_of (click (set_textContent report 0 ''Collapse'') 0)) (row_id 2)
       = Some ''Null''"
proof -
  let ?page = "set_textContent report 0 ''Collapse''"
  have "0 < length ?page"
    and "id_attr (?page ! 0) = Some ''main-menu''"
    and "getElementById ?page ''main-menu'' = Some 0"
    and "textContent (?page ! 0) \<noteq> ''Expand''"
    and "getElementsByClassName_0 ?page ''result-table'' = Some 1"
    and "rows (?page ! 1) = Some 4"
    and "even (4::nat)"
    and "\<forall>i<4. getElementById ?page (row_id i) \<noteq> None"
    using report_rows
    by (simp_all add: getElementById_def getElementsByClassName_0_def class_names_def
        is_ascii_whitespace_def set_textContent_def page_defs)
  from menu_click_on_Collapse [OF this] obtain d where
    "click ?page 0 = Ok d" "textContent (d ! 0) = ''Expand''"
    "\<forall>i<4. odd i \<longrightarrow> class_of d (row_id i) = Some ''row-hide''"
    "\<forall>i<4. even i \<longrightarrow> style_of d (row_id i) = Some ''Null''"
    by blast
  moreover have "textContent (?page ! 0) \<noteq> ''Expand''"
    by (simp add: set_textContent_def page_defs)
  ultimately show ?thesis by simp
qed

theorem menu_click_on_Collapse_counterexample:
  "textContent (doc_of (click report 0) ! 0) = ''Collapse''
   \<and> is_Ok (click (doc_of (click report 0)) 0)
   \<and> textContent (doc_of (click (doc_of (click report 0)) 0) ! 0) = ''Expand''
   \<and> class_of (doc_of (click (doc_of (click report 0)) 0)) ''result-table-row-1''
       = Some ''row-hide''
   \<and> class_of (doc_of (click (doc_of (click report 0)) 0)) ''result-table-row-3''
       = Some ''row-hide''"
  by (simp add: eval_defs)

subsection \<open>The reach of the model\<close>




section \<open>Exceptions\<close>




end
